theory Spec2Isabelle
  imports Complex_Main "HOL-Library.Char_ord" "HOL-Library.List_Lexorder" "HOL-Library.Log_Nat"
begin

section \<open>Shared value models\<close>

subsection \<open>IEEE-754 doubles\<close>

text \<open>
  A double is NaN, one of the two infinities, or a finite value. A finite double is a
  dyadic rational; \<open>Fin q\<close> carries its exact value. The two zeros are both \<open>Fin 0\<close>:
  every test of the runners that is modelled here (\<open>==\<close>, \<open><\<close>, \<open>isNaN\<close>, \<open>isinf\<close>,
  also on the absolute value of a difference) gives the same answer on \<open>-0.0\<close> and
  \<open>0.0\<close>.
\<close>

datatype double = NaN | PInf | NInf | Fin rat

definition isnan :: "double \<Rightarrow> bool" where
  "isnan d = (d = NaN)"

definition isinf :: "double \<Rightarrow> bool" where
  "isinf d = (d = PInf \<or> d = NInf)"

text \<open>The IEEE comparison \<open>==\<close>: NaN is equal to nothing, itself included.\<close>

definition deq :: "double \<Rightarrow> double \<Rightarrow> bool" where
  "deq a b = (a \<noteq> NaN \<and> b \<noteq> NaN \<and> a = b)"

text \<open>The IEEE comparison \<open><\<close>: false as soon as one side is NaN.\<close>

fun dless :: "double \<Rightarrow> double \<Rightarrow> bool" where
  "dless NaN _ = False"
| "dless _ NaN = False"
| "dless PInf _ = False"
| "dless _ NInf = False"
| "dless NInf _ = True"
| "dless _ PInf = True"
| "dless (Fin x) (Fin y) = (x < y)"

text \<open>
  Rounding of an exact result to the nearest double, ties to even: 53 significant bits,
  exponents down to \<open>-1022\<close> with subnormals below, overflow to an infinity.
\<close>

definition pow2 :: "int \<Rightarrow> rat" where
  "pow2 k = (if 0 \<le> k then 2 ^ nat k else 1 / 2 ^ nat (- k))"

definition ilog2 :: "rat \<Rightarrow> int" where
  "ilog2 a = (let (n, d) = quotient_of a; k = bitlen n - bitlen d
              in if pow2 k \<le> a then k else k - 1)"

definition round_half_even :: "rat \<Rightarrow> int" where
  "round_half_even x =
     (let f = \<lfloor>x\<rfloor>; r = x - of_int f
      in if r < 1 / 2 then f else if 1 / 2 < r then f + 1 else if even f then f else f + 1)"

definition fin_round :: "rat \<Rightarrow> double" where
  "fin_round q =
     (if q = 0 then Fin 0
      else let a = \<bar>q\<bar>;
               e = max (ilog2 a) (- 1022);
               u = pow2 (e - 52);
               r = of_int (round_half_even (a / u)) * u
           in if pow2 1024 \<le> r then (if 0 < q then PInf else NInf)
              else Fin (if 0 < q then r else - r))"

text \<open>IEEE subtraction and absolute value.\<close>

fun dsub :: "double \<Rightarrow> double \<Rightarrow> double" where
  "dsub NaN _ = NaN"
| "dsub _ NaN = NaN"
| "dsub PInf PInf = NaN"
| "dsub NInf NInf = NaN"
| "dsub PInf _ = PInf"
| "dsub NInf _ = NInf"
| "dsub _ PInf = NInf"
| "dsub _ NInf = PInf"
| "dsub (Fin x) (Fin y) = fin_round (x - y)"

fun dabs :: "double \<Rightarrow> double" where
  "dabs NaN = NaN"
| "dabs PInf = PInf"
| "dabs NInf = PInf"
| "dabs (Fin x) = Fin \<bar>x\<bar>"

text \<open>Decimal digits of a natural number and of an integer, as the runtimes print them.\<close>

fun show_nat :: "nat \<Rightarrow> string" where
  "show_nat n =
     (if n < 10 then [char_of (48 + n)]
      else show_nat (n div 10) @ [char_of (48 + n mod 10)])"

declare show_nat.simps [simp del]

definition show_int :: "int \<Rightarrow> string" where
  "show_int i = (if i < 0 then CHR ''-'' # show_nat (nat (- i)) else show_nat (nat i))"

subsection \<open>Numeric patterns\<close>

text \<open>
  The regular expressions \<open>^-?\d+$\<close> and \<open>^-?\d*\.\d+$\<close> of the Python and TypeScript
  runners. Over code points below 256, \<open>\d\<close> is an ASCII digit in both.
\<close>

definition is_digit :: "char \<Rightarrow> bool" where
  "is_digit c = (CHR ''0'' \<le> c \<and> c \<le> CHR ''9'')"

definition digits :: "string \<Rightarrow> bool" where
  "digits s = (s \<noteq> [] \<and> list_all is_digit s)"

definition unsign :: "string \<Rightarrow> string" where
  "unsign s = (case s of c # cs \<Rightarrow> if c = CHR ''-'' then cs else s | [] \<Rightarrow> s)"

definition int_pattern :: "string \<Rightarrow> bool" where
  "int_pattern s = digits (unsign s)"

definition float_pattern :: "string \<Rightarrow> bool" where
  "float_pattern s =
     (case dropWhile is_digit (unsign s) of
        c # fr \<Rightarrow> c = CHR ''.'' \<and> digits fr
      | [] \<Rightarrow> False)"

subsection \<open>JavaScript values\<close>

text \<open>
  The values the generators (plain JavaScript) and the TypeScript runner handle:
  what \<open>JSON.parse\<close> returns, plus \<open>undefined\<close>. An object is the list of its own
  enumerable string keys with their values, the keys pairwise distinct. Strings are
  lists of code units.
\<close>

datatype jsval =
    JSUndefined
  | JSNull
  | JSBool bool
  | JSNum double
  | JSStr string
  | JSArr "jsval list"
  | JSObj "(string \<times> jsval) list"

section \<open>The C++ generator: \<open>convertCppToJson\<close> (cpp.js)\<close>

text \<open>
  \<open>String.prototype.trim\<close> removes white space and line terminators at both ends.
  Over code units below 256 these are TAB, LF, VT, FF, CR, SPACE and NBSP.
\<close>

definition js_ws :: "char \<Rightarrow> bool" where
  "js_ws c = (c \<in> set [CHR 0x09, CHR 0x0A, CHR 0x0B, CHR 0x0C, CHR 0x0D, CHR 0x20, CHR 0xA0])"

definition trim :: "string \<Rightarrow> string" where
  "trim s = rev (dropWhile js_ws (rev (dropWhile js_ws s)))"

definition startsWith :: "string \<Rightarrow> string \<Rightarrow> bool" where
  "startsWith s p = (take (length p) s = p)"

definition endsWith :: "string \<Rightarrow> string \<Rightarrow> bool" where
  "endsWith s p = (length p \<le> length s \<and> drop (length s - length p) s = p)"

text \<open>
  The \<open>for\<close> loop of \<open>convertCppToJson\<close>: \<open>result\<close>, \<open>inString\<close> and \<open>escapeNext\<close> are
  the loop's variables, the last argument is what is left of \<open>trimmed\<close> from index \<open>i\<close>.
\<close>

fun cpp_loop :: "string \<Rightarrow> bool \<Rightarrow> bool \<Rightarrow> string \<Rightarrow> string" where
  "cpp_loop result inString escapeNext [] = result"
| "cpp_loop result inString escapeNext (c # cs) =
     (if escapeNext then cpp_loop (result @ [c]) inString False cs
      else if c = CHR 0x5C then cpp_loop (result @ [c]) inString True cs
      else if c = CHR 0x22 then cpp_loop (result @ [c]) (\<not> inString) escapeNext cs
      else if \<not> inString then
        (if c = CHR ''{'' then cpp_loop (result @ ''['') inString escapeNext cs
         else if c = CHR ''}'' then cpp_loop (result @ '']'') inString escapeNext cs
         else cpp_loop (result @ [c]) inString escapeNext cs)
      else cpp_loop (result @ [c]) inString escapeNext cs)"

definition cpp_rewrite :: "string \<Rightarrow> string" where
  "cpp_rewrite trimmed = cpp_loop [] False False trimmed"

text \<open>
  \<open>convertCppToJson\<close>. \<open>JSON.parse\<close> is the engine's, not the repository's: it is the
  parameter \<open>json_parse\<close>, \<open>None\<close> when it throws. The \<open>catch\<close> returns the argument.
\<close>

definition convertCppToJson :: "(string \<Rightarrow> jsval option) \<Rightarrow> jsval \<Rightarrow> jsval" where
  "convertCppToJson json_parse v =
     (case v of
        JSStr s \<Rightarrow>
          (let trimmed = trim s in
           if \<not> startsWith trimmed ''{'' \<or> \<not> endsWith trimmed ''}'' then v
           else (case json_parse (cpp_rewrite trimmed) of
                   Some parsed \<Rightarrow> parsed
                 | None \<Rightarrow> v))
      | _ \<Rightarrow> v)"

text \<open>
  What the specification calls a position inside a string literal, stated without the
  loop: position \<open>i\<close> is escaped when the run of backslashes that ends just before it
  has odd length; a quote delimits when it is not escaped; position \<open>i\<close> is inside a
  literal when an odd number of delimiting quotes lies before it.
\<close>

definition escaped :: "string \<Rightarrow> nat \<Rightarrow> bool" where
  "escaped s i = odd (length (takeWhile (\<lambda>c. c = CHR 0x5C) (rev (take i s))))"

definition delimits :: "string \<Rightarrow> nat \<Rightarrow> bool" where
  "delimits s j = (s ! j = CHR 0x22 \<and> \<not> escaped s j)"

definition inside :: "string \<Rightarrow> nat \<Rightarrow> bool" where
  "inside s i = odd (length (filter (delimits s) [0..<i]))"

text \<open>The character the specification expects at position \<open>i\<close> of the rewritten text.\<close>

definition rewritten_at :: "string \<Rightarrow> nat \<Rightarrow> char" where
  "rewritten_at s i =
     (if inside s i \<or> escaped s i then s ! i
      else if s ! i = CHR ''{'' then CHR ''[''
      else if s ! i = CHR ''}'' then CHR '']''
      else s ! i)"

section \<open>The Python runner (the template of \<open>PythonGenerator\<close> in csharp.js)\<close>

subsection \<open>Python values\<close>

text \<open>
  The values of the classes the runner names. A set, frozenset or deque is the list of
  its elements in iteration order; a dict, Counter, OrderedDict or defaultdict is the
  list of its items in insertion order. The two arguments of \<open>deep_equals\<close> are built
  apart (one by \<open>eval\<close>, one by \<open>parse_expected_value\<close>), so they share no float
  object: \<open>==\<close> between their parts never succeeds by identity alone.
\<close>

datatype pyval =
    PNone
  | PBool bool
  | PInt int
  | PFloat double
  | PStr string
  | PList "pyval list"
  | PTuple "pyval list"
  | PDict "(pyval \<times> pyval) list"
  | PSet "pyval list"
  | PFrozenset "pyval list"
  | PDeque "pyval list"
  | PCounter "(pyval \<times> pyval) list"
  | POrderedDict "(pyval \<times> pyval) list"
  | PDefaultdict "(pyval \<times> pyval) list"

datatype pyclass = NoneType | Cbool | Cint | Cfloat | Cstr | Clist | Ctuple | Cdict | Cset
  | Cfrozenset | Cdeque | CCounter | COrderedDict | Cdefaultdict

text \<open>\<open>type(v)\<close>, and \<open>type(v).__name__\<close>.\<close>

fun type_of :: "pyval \<Rightarrow> pyclass" where
  "type_of PNone = NoneType"
| "type_of (PBool _) = Cbool"
| "type_of (PInt _) = Cint"
| "type_of (PFloat _) = Cfloat"
| "type_of (PStr _) = Cstr"
| "type_of (PList _) = Clist"
| "type_of (PTuple _) = Ctuple"
| "type_of (PDict _) = Cdict"
| "type_of (PSet _) = Cset"
| "type_of (PFrozenset _) = Cfrozenset"
| "type_of (PDeque _) = Cdeque"
| "type_of (PCounter _) = CCounter"
| "type_of (POrderedDict _) = COrderedDict"
| "type_of (PDefaultdict _) = Cdefaultdict"

fun class_name :: "pyclass \<Rightarrow> string" where
  "class_name NoneType = ''NoneType''"
| "class_name Cbool = ''bool''"
| "class_name Cint = ''int''"
| "class_name Cfloat = ''float''"
| "class_name Cstr = ''str''"
| "class_name Clist = ''list''"
| "class_name Ctuple = ''tuple''"
| "class_name Cdict = ''dict''"
| "class_name Cset = ''set''"
| "class_name Cfrozenset = ''frozenset''"
| "class_name Cdeque = ''deque''"
| "class_name CCounter = ''Counter''"
| "class_name COrderedDict = ''OrderedDict''"
| "class_name Cdefaultdict = ''defaultdict''"

text \<open>
  \<open>isinstance\<close> follows the class hierarchy: \<open>bool\<close> is a subclass of \<open>int\<close>;
  \<open>Counter\<close>, \<open>OrderedDict\<close> and \<open>defaultdict\<close> are subclasses of \<open>dict\<close>.
\<close>

definition issubclass :: "pyclass \<Rightarrow> pyclass \<Rightarrow> bool" where
  "issubclass c d = (c = d \<or> (c = Cbool \<and> d = Cint)
     \<or> ((c = CCounter \<or> c = COrderedDict \<or> c = Cdefaultdict) \<and> d = Cdict))"

definition isinstance :: "pyval \<Rightarrow> pyclass \<Rightarrow> bool" where
  "isinstance v c = issubclass (type_of v) c"

text \<open>The payload of a value once its class is known.\<close>

fun elems :: "pyval \<Rightarrow> pyval list" where
  "elems (PList xs) = xs"
| "elems (PTuple xs) = xs"
| "elems (PSet xs) = xs"
| "elems (PFrozenset xs) = xs"
| "elems (PDeque xs) = xs"
| "elems _ = []"

fun items :: "pyval \<Rightarrow> (pyval \<times> pyval) list" where
  "items (PDict es) = es"
| "items (PCounter es) = es"
| "items (POrderedDict es) = es"
| "items (PDefaultdict es) = es"
| "items _ = []"

fun the_bool :: "pyval \<Rightarrow> bool" where
  "the_bool (PBool b) = b"
| "the_bool _ = False"

fun the_int :: "pyval \<Rightarrow> int" where
  "the_int (PInt n) = n"
| "the_int (PBool b) = (if b then 1 else 0)"
| "the_int _ = 0"

fun the_float :: "pyval \<Rightarrow> double" where
  "the_float (PFloat d) = d"
| "the_float _ = NaN"

fun the_str :: "pyval \<Rightarrow> string" where
  "the_str (PStr s) = s"
| "the_str _ = []"

text \<open>
  The numeric value of a bool, int or float. Python compares an int with a float
  exactly, so an int is read here as the rational it is.
\<close>

fun numval :: "pyval \<Rightarrow> double option" where
  "numval (PBool b) = Some (Fin (if b then 1 else 0))"
| "numval (PInt n) = Some (Fin (of_int n))"
| "numval (PFloat d) = Some d"
| "numval _ = None"

lemma size_elems: "x \<in> set (elems a) \<Longrightarrow> size x < size a"
  by (cases a) (auto simp: less_Suc_eq_le dest: size_list_estimation')

lemma size_items_fst: "(k, v) \<in> set (items a) \<Longrightarrow> size k < size a"
  by (cases a) (auto simp: less_Suc_eq_le dest!: size_list_estimation' [where y = "size k" and f = "size_prod size size"])

lemma size_items_snd: "(k, v) \<in> set (items a) \<Longrightarrow> size v < size a"
  by (cases a) (auto simp: less_Suc_eq_le dest!: size_list_estimation' [where y = "size v" and f = "size_prod size size"])

text \<open>
  Python's \<open>==\<close> on these values. Numbers compare by value across bool, int and float.
  Lists, tuples and deques compare element by element within their own class. A set
  and a frozenset are equal when they have the same size and every element of the left
  one has an equal element in the right one. Dicts of any of the four classes are equal
  when they have the same size and every item of the left one has an equal key with an
  equal value in the right one; two OrderedDicts also need their keys in the same
  order. (From Python 3.10 on, two Counters read a missing key as zero; no statement
  below compares Counters with \<open>==\<close>.)
\<close>

function py_eq :: "pyval \<Rightarrow> pyval \<Rightarrow> bool" where
  "py_eq a b =
    (case (numval a, numval b) of
       (Some x, Some y) \<Rightarrow> deq x y
     | (Some x, None) \<Rightarrow> False
     | (None, Some y) \<Rightarrow> False
     | (None, None) \<Rightarrow>
        (if a = PNone \<or> b = PNone then a = b
         else if type_of a = Cstr \<or> type_of b = Cstr then a = b
         else if type_of a \<in> {Clist, Ctuple, Cdeque} \<or> type_of b \<in> {Clist, Ctuple, Cdeque} then
           type_of a = type_of b \<and> length (elems a) = length (elems b) \<and>
           list_all (\<lambda>(x, y). py_eq x y) (zip (elems a) (elems b))
         else if type_of a \<in> {Cset, Cfrozenset} \<or> type_of b \<in> {Cset, Cfrozenset} then
           type_of a \<in> {Cset, Cfrozenset} \<and> type_of b \<in> {Cset, Cfrozenset} \<and>
           length (elems a) = length (elems b) \<and>
           list_all (\<lambda>x. list_ex (\<lambda>y. py_eq x y) (elems b)) (elems a)
         else
           length (items a) = length (items b) \<and>
           list_all (\<lambda>(k, v). list_ex (\<lambda>(k', v'). py_eq k k' \<and> py_eq v v') (items b)) (items a) \<and>
           (type_of a = COrderedDict \<and> type_of b = COrderedDict \<longrightarrow>
              list_all (\<lambda>((k, v), (k', v')). py_eq k k') (zip (items a) (items b)))))"
  by pat_completeness auto
termination
  apply (relation "measure (\<lambda>(a, b). size a)")
  apply (auto dest!: set_zip_leftD dest: size_elems size_items_fst size_items_snd)
  done

declare py_eq.simps [simp del]

text \<open>\<open>set(xs) == set(ys)\<close> for two lists of pairwise different keys.\<close>

definition keys_eq :: "pyval list \<Rightarrow> pyval list \<Rightarrow> bool" where
  "keys_eq xs ys = (length xs = length ys \<and> list_all (\<lambda>x. list_ex (\<lambda>y. py_eq x y) ys) xs)"

text \<open>\<open>d[k]\<close>: the value of the first item whose key equals \<open>k\<close>.\<close>

fun getitem :: "(pyval \<times> pyval) list \<Rightarrow> pyval \<Rightarrow> pyval option" where
  "getitem [] k = None"
| "getitem ((k', v) # es) k = (if py_eq k k' then Some v else getitem es k)"

subsection \<open>\<open>deep_equals\<close>\<close>

text \<open>
  The branches in the order of the source. In the dict branch \<open>a[k]\<close> is the value of
  the item of \<open>a\<close> the iteration is at; \<open>b[k]\<close> finds its item because the key sets
  have just been found equal, so the \<open>KeyError\<close> of a missing key cannot occur.
\<close>

function deep_equals :: "pyval \<Rightarrow> pyval \<Rightarrow> bool" where
  "deep_equals a b =
    (if a = PNone \<and> b = PNone then True
     else if a = PNone \<or> b = PNone then False
     else if isinstance a Cfloat \<and> isinstance b Cfloat
             \<and> isnan (the_float a) \<and> isnan (the_float b) then True
     else if type_of a \<noteq> type_of b then False
     else if isinstance a Clist then
       (if length (elems a) \<noteq> length (elems b) then False
        else list_all (\<lambda>(x, y). deep_equals x y) (zip (elems a) (elems b)))
     else if isinstance a Ctuple then
       (if length (elems a) \<noteq> length (elems b) then False
        else list_all (\<lambda>(x, y). deep_equals x y) (zip (elems a) (elems b)))
     else if isinstance a Cdict then
       (if \<not> keys_eq (map fst (items a)) (map fst (items b)) then False
        else list_all (\<lambda>(k, v). case getitem (items b) k of
                                   Some v' \<Rightarrow> deep_equals v v'
                                 | None \<Rightarrow> False) (items a))
     else if isinstance a Cset then py_eq a b
     else if isinstance a Cfrozenset then py_eq a b
     else py_eq a b)"
  by pat_completeness auto
termination
  apply (relation "measure (\<lambda>(a, b). size a)")
  apply (auto dest!: set_zip_leftD dest: size_elems size_items_snd)
  done

declare deep_equals.simps [simp del]

subsection \<open>The wire format and the Python library\<close>

text \<open>
  What \<open>json.loads\<close> returns and \<open>json.dumps\<close> takes: \<open>None\<close>, bools, ints, floats,
  strings, lists, and dicts with string keys (an object is the list of its items in
  insertion order).
\<close>

datatype json =
    JNull
  | JBool bool
  | JInt int
  | JFloat double
  | JStr string
  | JArr "json list"
  | JObj "(string \<times> json) list"

text \<open>The exceptions the modelled built-ins raise, by class.\<close>

datatype pyerr = ValueError | TypeError | AttributeError | OverflowError | SyntaxError


text \<open>
  What the runner takes from Python's library and does not define itself, as
  parameters: \<open>str\<close> of a value that is not a string and of a serialized value,
  \<open>int\<close> and \<open>float\<close> of a string (\<open>None\<close> for their \<open>ValueError\<close>), \<open>json.loads\<close>
  (\<open>None\<close> for \<open>JSONDecodeError\<close>), \<open>ast.literal_eval\<close>, and the text of a built-in's
  exception.
\<close>

record pylib =
  str_of :: "pyval \<Rightarrow> string"
  json_str :: "json \<Rightarrow> string"
  int_of_str :: "string \<Rightarrow> int option"
  float_of_str :: "string \<Rightarrow> double option"
  json_loads :: "string \<Rightarrow> json option"
  literal_eval :: "string \<Rightarrow> pyerr + pyval"
  err_text :: "pyerr \<Rightarrow> string"

text \<open>\<open>str(k)\<close>: a string is its own \<open>str\<close>.\<close>

definition py_str :: "pylib \<Rightarrow> pyval \<Rightarrow> string" where
  "py_str L k = (if isinstance k Cstr then the_str k else str_of L k)"

text \<open>\<open>d[k] = v\<close> on a dict with string keys, and a dict comprehension over items.\<close>

definition setitem :: "(string \<times> 'v) list \<Rightarrow> string \<Rightarrow> 'v \<Rightarrow> (string \<times> 'v) list" where
  "setitem d k v =
     (if k \<in> fst ` set d then map (\<lambda>(k', v'). if k' = k then (k', v) else (k', v')) d
      else d @ [(k, v)])"

definition dict_of :: "(string \<times> 'v) list \<Rightarrow> (string \<times> 'v) list" where
  "dict_of kvs = foldl (\<lambda>d (k, v). setitem d k v) [] kvs"

definition marker :: "string \<Rightarrow> json \<Rightarrow> json" where
  "marker t v = JObj [(''__type__'', JStr t), (''value'', v)]"

subsection \<open>\<open>serialize\<close>\<close>

text \<open>
  The tests in the order of the source. The last line of the source, for a value of any
  other class, is not reached by a value of \<open>pyval\<close>.
\<close>

function serialize :: "pylib \<Rightarrow> pyval \<Rightarrow> json" where
  "serialize L v =
    (if v = PNone then JNull
     else if isinstance v Cbool then JBool (the_bool v)
     else if isinstance v CCounter then
       marker ''Counter'' (JObj (dict_of (map (\<lambda>(k, x). (py_str L k, serialize L x)) (items v))))
     else if isinstance v COrderedDict then
       marker ''OrderedDict'' (JObj (dict_of (map (\<lambda>(k, x). (py_str L k, serialize L x)) (items v))))
     else if isinstance v Cdefaultdict then
       marker ''defaultdict'' (JObj (dict_of (map (\<lambda>(k, x). (py_str L k, serialize L x)) (items v))))
     else if isinstance v Cint then marker ''int'' (JInt (the_int v))
     else if isinstance v Cfloat then
       (if isnan (the_float v) then marker ''float'' (JStr ''NaN'')
        else if isinf (the_float v) then
          marker ''float'' (JStr (if dless (Fin 0) (the_float v) then ''Infinity'' else ''-Infinity''))
        else marker ''float'' (JFloat (the_float v)))
     else if isinstance v Cstr then JStr (the_str v)
     else if isinstance v Ctuple then marker ''tuple'' (JArr (map (serialize L) (elems v)))
     else if isinstance v Clist then JArr (map (serialize L) (elems v))
     else if isinstance v Cdict then
       marker ''dict'' (JObj (dict_of (map (\<lambda>(k, x). (py_str L k, serialize L x)) (items v))))
     else if isinstance v Cset then
       marker ''set'' (JArr (sort_key (json_str L) (map (serialize L) (elems v))))
     else if isinstance v Cfrozenset then
       marker ''frozenset'' (JArr (sort_key (json_str L) (map (serialize L) (elems v))))
     else if isinstance v Cdeque then marker ''deque'' (JArr (map (serialize L) (elems v)))
     else marker (class_name (type_of v)) (JStr (str_of L v)))"
  by pat_completeness auto
termination
  apply (relation "measure (\<lambda>(L, v). size v)")
  apply (auto dest: size_elems size_items_snd)
  done

declare serialize.simps [simp del]

subsection \<open>\<open>convert_expected\<close>\<close>

text \<open>A generator expression consumed by a constructor: the first exception wins.\<close>

fun sequence :: "('e + 'a) list \<Rightarrow> 'e + 'a list" where
  "sequence [] = Inr []"
| "sequence (x # xs) =
     (case x of
        Inl e \<Rightarrow> Inl e
      | Inr v \<Rightarrow> (case sequence xs of Inl e \<Rightarrow> Inl e | Inr vs \<Rightarrow> Inr (v # vs)))"

text \<open>
  \<open>for x in v\<close> over a decoded JSON value: a list gives its elements, a string its
  characters, a dict its keys; anything else is not iterable.
\<close>

fun json_iter :: "json \<Rightarrow> pyerr + json list" where
  "json_iter (JArr xs) = Inr xs"
| "json_iter (JStr s) = Inr (map (\<lambda>c. JStr [c]) s)"
| "json_iter (JObj kvs) = Inr (map (\<lambda>(k, x). JStr k) kvs)"
| "json_iter _ = Inl TypeError"

text \<open>\<open>v.items()\<close>: only a dict has it.\<close>

fun json_items :: "json \<Rightarrow> pyerr + (string \<times> json) list" where
  "json_items (JObj kvs) = Inr kvs"
| "json_items _ = Inl AttributeError"

text \<open>What may be an element of a set or a key of a dict.\<close>

fun hashable :: "pyval \<Rightarrow> bool" where
  "hashable (PTuple xs) = list_all hashable xs"
| "hashable (PList _) = False"
| "hashable (PDict _) = False"
| "hashable (PSet _) = False"
| "hashable (PDeque _) = False"
| "hashable (PCounter _) = False"
| "hashable (POrderedDict _) = False"
| "hashable (PDefaultdict _) = False"
| "hashable _ = True"

text \<open>
  \<open>set(xs)\<close> and \<open>frozenset(xs)\<close>: an unhashable element is a \<open>TypeError\<close>, an element
  equal to an earlier one is dropped. (The iteration order of a real set depends on the
  hashes; the model keeps the order of insertion.)
\<close>

definition set_insert :: "pyval list \<Rightarrow> pyval \<Rightarrow> pyval list" where
  "set_insert acc x = (if list_ex (\<lambda>y. py_eq y x) acc then acc else acc @ [x])"

definition make_set :: "pyval list \<Rightarrow> pyerr + pyval list" where
  "make_set xs = (if list_all hashable xs then Inr (foldl set_insert [] xs) else Inl TypeError)"

text \<open>\<open>int(v)\<close> and \<open>float(v)\<close> of a decoded JSON value.\<close>

fun py_int :: "pylib \<Rightarrow> json \<Rightarrow> pyerr + int" where
  "py_int L (JInt n) = Inr n"
| "py_int L (JBool b) = Inr (if b then 1 else 0)"
| "py_int L (JFloat NaN) = Inl ValueError"
| "py_int L (JFloat PInf) = Inl OverflowError"
| "py_int L (JFloat NInf) = Inl OverflowError"
| "py_int L (JFloat (Fin q)) = Inr (if 0 \<le> q then \<lfloor>q\<rfloor> else \<lceil>q\<rceil>)"
| "py_int L (JStr s) = (case int_of_str L s of Some n \<Rightarrow> Inr n | None \<Rightarrow> Inl ValueError)"
| "py_int L _ = Inl TypeError"

fun py_float :: "pylib \<Rightarrow> json \<Rightarrow> pyerr + double" where
  "py_float L (JFloat d) = Inr d"
| "py_float L (JInt n) =
     (case fin_round (of_int n) of Fin q \<Rightarrow> Inr (Fin q) | _ \<Rightarrow> Inl OverflowError)"
| "py_float L (JBool b) = Inr (Fin (if b then 1 else 0))"
| "py_float L (JStr s) = (case float_of_str L s of Some d \<Rightarrow> Inr d | None \<Rightarrow> Inl ValueError)"
| "py_float L _ = Inl TypeError"

text \<open>\<open>"__type__" in val\<close> and \<open>val["__type__"]\<close> on a dict with string keys.\<close>

definition has_key :: "(string \<times> json) list \<Rightarrow> string \<Rightarrow> bool" where
  "has_key kvs k = (k \<in> fst ` set kvs)"

definition get_key :: "(string \<times> json) list \<Rightarrow> string \<Rightarrow> json" where
  "get_key kvs k = (case map_of kvs k of Some v \<Rightarrow> v | None \<Rightarrow> JNull)"

lemma size_get_key: "size (get_key kvs k) \<le> size_list (size_prod (\<lambda>_. 0) size) kvs"
proof (induction kvs)
  case Nil
  show ?case by (simp add: get_key_def)
next
  case (Cons p kvs)
  then show ?case by (cases p) (auto simp: get_key_def split: option.splits)
qed

lemma size_json_iter: "json_iter v = Inr xs \<Longrightarrow> x \<in> set xs \<Longrightarrow> size x \<le> size v"
proof (cases v)
  case (JArr ys)
  assume "json_iter v = Inr xs" "x \<in> set xs"
  with JArr have "x \<in> set ys" by simp
  then have "size x \<le> size_list size ys" by (rule size_list_estimation') simp
  with JArr show ?thesis by simp
qed auto

lemma size_json_items: "json_items v = Inr kvs \<Longrightarrow> (k, x) \<in> set kvs \<Longrightarrow> size x < size v"
proof (cases v)
  case (JObj ys)
  assume "json_items v = Inr kvs" "(k, x) \<in> set kvs"
  with JObj have "(k, x) \<in> set ys" by simp
  then have "size x \<le> size_list (size_prod (\<lambda>_. 0) size) ys"
    by (rule size_list_estimation') simp
  with JObj show ?thesis by simp
qed auto

lemma size_iter_value:
  "json_iter (get_key val k) = Inr xs \<Longrightarrow> x \<in> set xs \<Longrightarrow> size x < size (JObj val)"
  using size_get_key [of val k] size_json_iter [of "get_key val k" xs x] by simp

lemma size_items_value:
  "json_items (get_key val k) = Inr kvs \<Longrightarrow> (k', x) \<in> set kvs \<Longrightarrow> size x < size (JObj val)"
  using size_get_key [of val k] size_json_items [of "get_key val k" kvs k' x] by simp

lemma size_arr_elem: "x \<in> set xs \<Longrightarrow> size x < size (JArr xs)"
  using size_list_estimation' [of x xs "size x" size] by simp

text \<open>
  The dict comprehension \<open>{k: convert_expected(x) for k, x in v.items()}\<close> and its
  siblings: \<open>over_items\<close> runs the conversion over the items of \<open>v\<close>.
\<close>

definition over_items ::
  "(json \<Rightarrow> pyerr + pyval) \<Rightarrow> json \<Rightarrow> pyerr + (pyval \<times> pyval) list" where
  "over_items f v =
     (case json_items v of
        Inl e \<Rightarrow> Inl e
      | Inr kvs \<Rightarrow>
          (case sequence (map (\<lambda>(k, x). f x) kvs) of
             Inl e \<Rightarrow> Inl e
           | Inr vs \<Rightarrow> Inr (zip (map (\<lambda>(k, x). PStr k) kvs) vs)))"

definition over_iter :: "(json \<Rightarrow> pyerr + pyval) \<Rightarrow> json \<Rightarrow> pyerr + pyval list" where
  "over_iter f v =
     (case json_iter v of
        Inl e \<Rightarrow> Inl e
      | Inr xs \<Rightarrow> sequence (map f xs))"

lemma over_items_cong [fundef_cong]:
  "v = v' \<Longrightarrow> (\<And>kvs k x. json_items v' = Inr kvs \<Longrightarrow> (k, x) \<in> set kvs \<Longrightarrow> f x = g x) \<Longrightarrow>
   over_items f v = over_items g v'"
proof -
  assume v: "v = v'" and fg: "\<And>kvs k x. json_items v' = Inr kvs \<Longrightarrow> (k, x) \<in> set kvs \<Longrightarrow> f x = g x"
  have eq: "map (\<lambda>(k, x). f x) kvs = map (\<lambda>(k, x). g x) kvs" if "json_items v' = Inr kvs" for kvs
    using fg [OF that] by (auto intro!: map_cong)
  show ?thesis
  proof (cases "json_items v'")
    case (Inl e)
    then show ?thesis unfolding over_items_def v by simp
  next
    case (Inr kvs)
    show ?thesis unfolding over_items_def v Inr by (simp only: sum.case eq [OF Inr])
  qed
qed

lemma over_iter_cong [fundef_cong]:
  "v = v' \<Longrightarrow> (\<And>xs x. json_iter v' = Inr xs \<Longrightarrow> x \<in> set xs \<Longrightarrow> f x = g x) \<Longrightarrow>
   over_iter f v = over_iter g v'"
proof -
  assume v: "v = v'" and fg: "\<And>xs x. json_iter v' = Inr xs \<Longrightarrow> x \<in> set xs \<Longrightarrow> f x = g x"
  have eq: "map f xs = map g xs" if "json_iter v' = Inr xs" for xs
    using fg [OF that] by (auto intro!: map_cong)
  show ?thesis
  proof (cases "json_iter v'")
    case (Inl e)
    then show ?thesis unfolding over_iter_def v by simp
  next
    case (Inr xs)
    show ?thesis unfolding over_iter_def v Inr by (simp only: sum.case eq [OF Inr])
  qed
qed

definition map_sum_r :: "('a \<Rightarrow> 'b) \<Rightarrow> 'e + 'a \<Rightarrow> 'e + 'b" where
  "map_sum_r f r = (case r of Inl e \<Rightarrow> Inl e | Inr x \<Rightarrow> Inr (f x))"

definition bind_sum :: "'e + 'a \<Rightarrow> ('a \<Rightarrow> 'e + 'b) \<Rightarrow> 'e + 'b" where
  "bind_sum r f = (case r of Inl e \<Rightarrow> Inl e | Inr x \<Rightarrow> f x)"

function convert_expected :: "pylib \<Rightarrow> json \<Rightarrow> pyerr + pyval" where
  "convert_expected L JNull = Inr PNone"
| "convert_expected L (JBool b) = Inr (PBool b)"
| "convert_expected L (JObj val) =
    (if has_key val ''__type__'' \<and> has_key val ''value'' then
       (let t = get_key val ''__type__''; v = get_key val ''value'' in
        if t = JStr ''tuple'' then map_sum_r PTuple (over_iter (convert_expected L) v)
        else if t = JStr ''set'' then
          map_sum_r PSet (bind_sum (over_iter (convert_expected L) v) make_set)
        else if t = JStr ''frozenset'' then
          map_sum_r PFrozenset (bind_sum (over_iter (convert_expected L) v) make_set)
        else if t = JStr ''int'' then map_sum_r PInt (py_int L v)
        else if t = JStr ''float'' then
          (if v = JStr ''NaN'' then Inr (PFloat NaN)
           else if v = JStr ''Infinity'' then Inr (PFloat PInf)
           else if v = JStr ''-Infinity'' then Inr (PFloat NInf)
           else map_sum_r PFloat (py_float L v))
        else if t = JStr ''dict'' then map_sum_r PDict (over_items (convert_expected L) v)
        else if t = JStr ''deque'' then map_sum_r PDeque (over_iter (convert_expected L) v)
        else if t = JStr ''Counter'' then map_sum_r PCounter (over_items (convert_expected L) v)
        else if t = JStr ''OrderedDict'' then
          map_sum_r POrderedDict (over_items (convert_expected L) v)
        else if t = JStr ''defaultdict'' then
          map_sum_r PDefaultdict (over_items (convert_expected L) v)
        else if t = JStr ''undefined'' then Inr PNone
        else map_sum_r PDict (over_items (convert_expected L) (JObj val)))
     else map_sum_r PDict (over_items (convert_expected L) (JObj val)))"
| "convert_expected L (JArr xs) = map_sum_r PList (sequence (map (convert_expected L) xs))"
| "convert_expected L (JInt n) = Inr (PInt n)"
| "convert_expected L (JFloat d) = Inr (PFloat d)"
| "convert_expected L (JStr s) = Inr (PStr s)"
  by pat_completeness auto
termination
  apply (relation "measure (\<lambda>(L, v). size v)")
  apply (simp_all only: in_measure prod.case wf_measure)
  apply (blast intro: size_iter_value size_items_value size_json_items size_arr_elem)+
  done

declare convert_expected.simps [simp del]

subsection \<open>\<open>parse_expected_value\<close>\<close>

text \<open>
  \<open>str.strip()\<close> removes the characters \<open>str.isspace\<close> accepts; over code points
  below 256 these are 0x09 to 0x0D, 0x1C to 0x20, 0x85 and 0xA0.
\<close>

definition py_space :: "char \<Rightarrow> bool" where
  "py_space c = (c \<in> set [CHR 0x09, CHR 0x0A, CHR 0x0B, CHR 0x0C, CHR 0x0D, CHR 0x1C, CHR 0x1D,
     CHR 0x1E, CHR 0x1F, CHR 0x20, CHR 0x85, CHR 0xA0])"

definition strip :: "string \<Rightarrow> string" where
  "strip s = rev (dropWhile py_space (rev (dropWhile py_space s)))"

text \<open>
  A pattern \<open>^pre(.*)suf$\<close> with \<open>re.DOTALL\<close> on a stripped string: the group, when
  the string starts with \<open>pre\<close> and ends with \<open>suf\<close> without overlap.
\<close>

definition between :: "string \<Rightarrow> string \<Rightarrow> string \<Rightarrow> string option" where
  "between pre suf t =
     (if length pre + length suf \<le> length t \<and> take (length pre) t = pre
         \<and> drop (length t - length suf) t = suf
      then Some (take (length t - length pre - length suf) (drop (length pre) t))
      else None)"

text \<open>Iteration over a value, and the constructors the parser calls on a literal.\<close>

fun py_iter :: "pyval \<Rightarrow> pyerr + pyval list" where
  "py_iter (PList xs) = Inr xs"
| "py_iter (PTuple xs) = Inr xs"
| "py_iter (PSet xs) = Inr xs"
| "py_iter (PFrozenset xs) = Inr xs"
| "py_iter (PDeque xs) = Inr xs"
| "py_iter (PStr s) = Inr (map (\<lambda>c. PStr [c]) s)"
| "py_iter (PDict es) = Inr (map fst es)"
| "py_iter (PCounter es) = Inr (map fst es)"
| "py_iter (POrderedDict es) = Inr (map fst es)"
| "py_iter (PDefaultdict es) = Inr (map fst es)"
| "py_iter _ = Inl TypeError"

definition py_frozenset :: "pyval \<Rightarrow> pyerr + pyval" where
  "py_frozenset x = map_sum_r PFrozenset (bind_sum (py_iter x) make_set)"

definition py_deque :: "pyval \<Rightarrow> pyerr + pyval" where
  "py_deque x = map_sum_r PDeque (py_iter x)"

text \<open>\<open>d[k] = v\<close> on a dict with any hashable key, and counting for \<open>Counter\<close>.\<close>

definition py_setitem :: "(pyval \<times> pyval) list \<Rightarrow> pyval \<Rightarrow> pyval \<Rightarrow> (pyval \<times> pyval) list" where
  "py_setitem d k v =
     (if list_ex (\<lambda>(k', v'). py_eq k k') d
      then map (\<lambda>(k', v'). if py_eq k k' then (k', v) else (k', v')) d
      else d @ [(k, v)])"

definition count_up :: "(pyval \<times> pyval) list \<Rightarrow> pyval \<Rightarrow> (pyval \<times> pyval) list" where
  "count_up d k =
     py_setitem d k (PInt (1 + (case getitem d k of Some c \<Rightarrow> the_int c | None \<Rightarrow> 0)))"

definition py_Counter :: "pyval \<Rightarrow> pyerr + pyval" where
  "py_Counter x =
     (if isinstance x Cdict then Inr (PCounter (items x))
      else case py_iter x of
             Inl e \<Rightarrow> Inl e
           | Inr xs \<Rightarrow> if list_all hashable xs then Inr (PCounter (foldl count_up [] xs))
                       else Inl TypeError)"

definition py_pair :: "pyval \<Rightarrow> pyerr + (pyval \<times> pyval)" where
  "py_pair x =
     (case py_iter x of
        Inl e \<Rightarrow> Inl e
      | Inr xs \<Rightarrow>
          (case xs of
             [k, v] \<Rightarrow> if hashable k then Inr (k, v) else Inl TypeError
           | _ \<Rightarrow> Inl ValueError))"

definition py_OrderedDict :: "pyval \<Rightarrow> pyerr + pyval" where
  "py_OrderedDict x =
     (if isinstance x Cdict then Inr (POrderedDict (items x))
      else case py_iter x of
             Inl e \<Rightarrow> Inl e
           | Inr xs \<Rightarrow>
               map_sum_r (\<lambda>kvs. POrderedDict (foldl (\<lambda>d (k, v). py_setitem d k v) [] kvs))
                 (sequence (map py_pair xs)))"

text \<open>\<open>list(range(a, b, s))\<close>; a zero step is a \<open>ValueError\<close>.\<close>

definition py_range :: "int \<Rightarrow> int \<Rightarrow> int \<Rightarrow> pyerr + pyval" where
  "py_range a b s =
     (if s = 0 then Inl ValueError
      else let n = (if 0 < s then (if a < b then (b - a + s - 1) div s else 0)
                    else (if b < a then (a - b - s - 1) div (- s) else 0))
           in Inr (PList (map (\<lambda>k. PInt (a + int k * s)) [0..<nat n])))"

fun split_on :: "char \<Rightarrow> string \<Rightarrow> string list" where
  "split_on c [] = [[]]"
| "split_on c (x # xs) =
     (if x = c then [] # split_on c xs
      else case split_on c xs of
             w # ws \<Rightarrow> (x # w) # ws
           | [] \<Rightarrow> [[x]])"

text \<open>
  \<open>re.sub(r'\btrue\b', 'True', ...)\<close> and its two siblings: every maximal run of word
  characters that spells \<open>true\<close>, \<open>false\<close> or \<open>null\<close> is replaced. Over code points
  below 256 a word character is a letter, a digit or the underscore.
\<close>

definition is_word :: "char \<Rightarrow> bool" where
  "is_word c =
     (let n = (of_char c :: nat) in
      (48 \<le> n \<and> n \<le> 57) \<or> (65 \<le> n \<and> n \<le> 90) \<or> n = 95 \<or> (97 \<le> n \<and> n \<le> 122)
      \<or> n \<in> {170, 178, 179, 181, 185, 186, 188, 189, 190}
      \<or> (192 \<le> n \<and> n \<le> 214) \<or> (216 \<le> n \<and> n \<le> 246) \<or> 248 \<le> n)"

definition subst_word :: "string \<Rightarrow> string" where
  "subst_word w =
     (if w = ''true'' then ''True'' else if w = ''false'' then ''False''
      else if w = ''null'' then ''None'' else w)"

fun norm_runs :: "string \<Rightarrow> string \<Rightarrow> string" where
  "norm_runs w [] = subst_word w"
| "norm_runs w (c # cs) =
     (if is_word c then norm_runs (w @ [c]) cs else subst_word w @ c # norm_runs [] cs)"

definition normalize :: "string \<Rightarrow> string" where
  "normalize t = norm_runs [] t"

text \<open>
  The rules of \<open>parse_expected_value\<close> on the stripped text, each \<open>None\<close> when the source
  falls through to the next rule and \<open>Some\<close> of what it returns or raises otherwise.
  A bare \<open>except:\<close> swallows every exception of its \<open>try\<close>; the first \<open>try\<close> catches
  only \<open>JSONDecodeError\<close> and \<open>ValueError\<close>, the last only \<open>ValueError\<close> and
  \<open>SyntaxError\<close>.
\<close>

definition rule_json :: "pylib \<Rightarrow> string \<Rightarrow> (pyerr + pyval) option" where
  "rule_json L t =
     (case json_loads L t of
        None \<Rightarrow> None
      | Some parsed \<Rightarrow>
          (case convert_expected L parsed of
             Inl e \<Rightarrow> if e = ValueError then None else Some (Inl e)
           | Inr v \<Rightarrow> Some (Inr v)))"

definition rule_keyword :: "string \<Rightarrow> (pyerr + pyval) option" where
  "rule_keyword t =
     (if t = ''True'' then Some (Inr (PBool True))
      else if t = ''False'' then Some (Inr (PBool False))
      else if t = ''None'' then Some (Inr PNone)
      else if t = ''undefined'' then Some (Inr PNone)
      else if t = ''NaN'' then Some (Inr (PFloat NaN))
      else if t = ''Infinity'' then Some (Inr (PFloat PInf))
      else if t = ''-Infinity'' then Some (Inr (PFloat NInf))
      else None)"

definition swallow :: "pyerr + pyval \<Rightarrow> (pyerr + pyval) option" where
  "swallow r = (case r of Inl e \<Rightarrow> None | Inr v \<Rightarrow> Some (Inr v))"

definition rule_ctor ::
  "pylib \<Rightarrow> string \<Rightarrow> string \<Rightarrow> string \<Rightarrow> string \<Rightarrow> pyval \<Rightarrow> (pyval \<Rightarrow> pyerr + pyval) \<Rightarrow> string
     \<Rightarrow> (pyerr + pyval) option" where
  "rule_ctor L name open_b close_b empty_call empty_val build t =
     (if t = empty_call then Some (Inr empty_val)
      else case between (name @ ''('' @ open_b) (close_b @ '')'') t of
             None \<Rightarrow> None
           | Some g \<Rightarrow>
               (let inner = strip g in
                if inner = [] then Some (Inr empty_val)
                else swallow (bind_sum (literal_eval L (open_b @ inner @ close_b)) build)))"

definition rule_range :: "pylib \<Rightarrow> string \<Rightarrow> (pyerr + pyval) option" where
  "rule_range L t =
     (case between ''list(range('' ''))'' t of
        None \<Rightarrow> None
      | Some g \<Rightarrow>
          if g = [] \<or> CHR '')'' \<in> set g then None
          else let parts = map (\<lambda>x. int_of_str L (strip x)) (split_on CHR '','' (strip g)) in
               if None \<in> set parts then None
               else (case map the parts of
                       [a] \<Rightarrow> swallow (py_range 0 a 1)
                     | [a, b] \<Rightarrow> swallow (py_range a b 1)
                     | [a, b, c] \<Rightarrow> swallow (py_range a b c)
                     | _ \<Rightarrow> None))"

definition rule_power :: "pylib \<Rightarrow> string \<Rightarrow> (pyerr + pyval) option" where
  "rule_power L t =
     (let g1 = takeWhile (\<lambda>c. c \<noteq> CHR ''*'') t; rest = dropWhile (\<lambda>c. c \<noteq> CHR ''*'') t;
          g2 = drop 2 rest
      in if take 2 rest = ''**'' \<and> int_pattern g1 \<and> int_pattern g2 then
           (case (int_of_str L g1, int_of_str L g2) of
              (Some base, Some ex) \<Rightarrow>
                if 0 \<le> ex \<and> ex \<le> 1000 then Some (Inr (PInt (base ^ nat ex))) else None
            | _ \<Rightarrow> None)
         else None)"

definition rule_int :: "pylib \<Rightarrow> string \<Rightarrow> (pyerr + pyval) option" where
  "rule_int L t =
     (if int_pattern t then
        (case int_of_str L t of Some n \<Rightarrow> Some (Inr (PInt n)) | None \<Rightarrow> Some (Inl ValueError))
      else None)"

text \<open>The patterns \<open>^-?\d*\.\d+$\<close> and \<open>^-?\d+\.\d*$\<close>.\<close>

definition float_pattern2 :: "string \<Rightarrow> bool" where
  "float_pattern2 s =
     (takeWhile is_digit (unsign s) \<noteq> [] \<and>
      (case dropWhile is_digit (unsign s) of
         c # fr \<Rightarrow> c = CHR ''.'' \<and> list_all is_digit fr
       | [] \<Rightarrow> False))"

definition rule_float :: "pylib \<Rightarrow> string \<Rightarrow> (pyerr + pyval) option" where
  "rule_float L t =
     (if float_pattern t \<or> float_pattern2 t then
        (case float_of_str L t of
           Some d \<Rightarrow> Some (Inr (PFloat d))
         | None \<Rightarrow> Some (Inl ValueError))
      else None)"

definition rule_literal :: "pylib \<Rightarrow> string \<Rightarrow> (pyerr + pyval) option" where
  "rule_literal L t =
     (case literal_eval L (normalize t) of
        Inr parsed \<Rightarrow> Some (Inr parsed)
      | Inl e \<Rightarrow> if e = ValueError \<or> e = SyntaxError then None else Some (Inl e))"

text \<open>The first rule that returns or raises decides.\<close>

fun first_of :: "'a option list \<Rightarrow> 'a option" where
  "first_of [] = None"
| "first_of (None # rs) = first_of rs"
| "first_of (Some r # rs) = Some r"

definition parse_expected_value :: "pylib \<Rightarrow> json \<Rightarrow> pyerr + pyval" where
  "parse_expected_value L val =
     (case val of
        JStr s \<Rightarrow>
          (let trimmed = strip s in
           case first_of
             [rule_json L trimmed,
              rule_keyword trimmed,
              rule_ctor L ''frozenset'' ''{'' ''}'' ''frozenset()'' (PFrozenset []) py_frozenset trimmed,
              rule_ctor L ''Counter'' ''{'' ''}'' ''Counter()'' (PCounter []) py_Counter trimmed,
              rule_ctor L ''OrderedDict'' ''['' '']'' ''OrderedDict()'' (POrderedDict [])
                py_OrderedDict trimmed,
              rule_ctor L ''deque'' ''['' '']'' ''deque()'' (PDeque []) py_deque trimmed,
              (if trimmed = ''defaultdict()'' then Some (Inr (PDefaultdict [])) else None),
              rule_range L trimmed,
              rule_power L trimmed,
              rule_int L trimmed,
              rule_float L trimmed,
              rule_literal L trimmed]
           of Some r \<Rightarrow> r
            | None \<Rightarrow> Inr (PStr s))
      | _ \<Rightarrow> convert_expected L val)"

subsection \<open>The batch loop\<close>








section \<open>The TypeScript runner (the template of \<open>TypeScriptGenerator\<close>)\<close>

text \<open>
  \<open>typeof\<close>, \<open>Array.isArray\<close> and \<open>===\<close>. Strict equality compares primitives by value
  (NaN differs from itself) and objects by identity; the two arguments of
  \<open>__deepEquals__\<close> are built apart (one by \<open>eval\<close>, one by \<open>__parseExpected__\<close>), so an
  array or object of one is never identical to one of the other.
\<close>

fun typeof :: "jsval \<Rightarrow> string" where
  "typeof JSUndefined = ''undefined''"
| "typeof JSNull = ''object''"
| "typeof (JSBool _) = ''boolean''"
| "typeof (JSNum _) = ''number''"
| "typeof (JSStr _) = ''string''"
| "typeof (JSArr _) = ''object''"
| "typeof (JSObj _) = ''object''"

fun isArray :: "jsval \<Rightarrow> bool" where
  "isArray (JSArr _) = True"
| "isArray _ = False"

fun strict_eq :: "jsval \<Rightarrow> jsval \<Rightarrow> bool" where
  "strict_eq JSUndefined JSUndefined = True"
| "strict_eq JSNull JSNull = True"
| "strict_eq (JSBool x) (JSBool y) = (x = y)"
| "strict_eq (JSNum x) (JSNum y) = deq x y"
| "strict_eq (JSStr x) (JSStr y) = (x = y)"
| "strict_eq _ _ = False"

fun js_isNaN :: "jsval \<Rightarrow> bool" where
  "js_isNaN (JSNum d) = isnan d"
| "js_isNaN _ = False"

fun js_isFinite :: "jsval \<Rightarrow> bool" where
  "js_isFinite (JSNum (Fin _)) = True"
| "js_isFinite _ = False"

fun js_length :: "jsval \<Rightarrow> nat" where
  "js_length (JSArr xs) = length xs"
| "js_length _ = 0"

fun js_elems :: "jsval \<Rightarrow> jsval list" where
  "js_elems (JSArr xs) = xs"
| "js_elems _ = []"

text \<open>
  \<open>Object.keys(a)\<close> (an array's keys are its indices in decimal) and the property
  read \<open>a[k]\<close>, \<open>undefined\<close> for a property that is not there.
\<close>

fun js_keys :: "jsval \<Rightarrow> string list" where
  "js_keys (JSObj kvs) = map fst kvs"
| "js_keys (JSArr xs) = map show_nat [0..<length xs]"
| "js_keys _ = []"

fun js_get :: "jsval \<Rightarrow> string \<Rightarrow> jsval" where
  "js_get (JSObj kvs) k = (case map_of kvs k of Some v \<Rightarrow> v | None \<Rightarrow> JSUndefined)"
| "js_get (JSArr xs) k =
     (if k = ''length'' then JSNum (Fin (of_nat (length xs)))
      else case map_of (zip (map show_nat [0..<length xs]) xs) k of
             Some v \<Rightarrow> v
           | None \<Rightarrow> JSUndefined)"
| "js_get _ k = JSUndefined"

lemma size_js_elems: "x \<in> set (js_elems a) \<Longrightarrow> size x < size a"
  by (cases a) (auto simp: less_Suc_eq_le dest: size_list_estimation')

lemma size_js_get: "typeof a = ''object'' \<Longrightarrow> a \<noteq> JSNull \<Longrightarrow> size (js_get a k) < size a"
proof (cases a)
  case (JSArr xs)
  have "size v < Suc (size_list size xs)"
    if "map_of (zip (map show_nat [0..<length xs]) xs) k = Some v" for v
  proof -
    from that have "v \<in> set xs" by (auto dest!: map_of_SomeD set_zip_rightD)
    then show ?thesis
      using size_list_estimation' [of v xs "size v" size] by simp
  qed
  with JSArr show ?thesis by (auto split: option.splits)
next
  case (JSObj kvs)
  have "size v < Suc (size_list (size_prod (\<lambda>_. 0) size) kvs)" if "map_of kvs k = Some v" for v
  proof -
    from that have "(k, v) \<in> set kvs" by (rule map_of_SomeD)
    then show ?thesis
      using size_list_estimation' [of "(k, v)" kvs "size v" "size_prod (\<lambda>_. 0) size"] by simp
  qed
  with JSObj show ?thesis by (auto split: option.splits)
qed auto

subsection \<open>\<open>__deepEquals__\<close>\<close>

function ts_deepEquals :: "jsval \<Rightarrow> jsval \<Rightarrow> bool" where
  "ts_deepEquals a b =
    (if strict_eq a b then True
     else if a = JSNull \<or> b = JSNull then strict_eq a b
     else if a = JSUndefined \<or> b = JSUndefined then strict_eq a b
     else if typeof a = ''number'' \<and> typeof b = ''number'' \<and> js_isNaN a \<and> js_isNaN b then True
     else if typeof a \<noteq> typeof b then False
     else if isArray a \<and> isArray b then
       (if js_length a \<noteq> js_length b then False
        else list_all (\<lambda>(v, w). ts_deepEquals v w) (zip (js_elems a) (js_elems b)))
     else if typeof a = ''object'' then
       (let keysA = sort (js_keys a); keysB = sort (js_keys b) in
        if length keysA \<noteq> length keysB then False
        else if \<not> list_all (\<lambda>(k, k'). k = k') (zip keysA keysB) then False
        else list_all (\<lambda>k. ts_deepEquals (js_get a k) (js_get b k)) keysA)
     else False)"
  by pat_completeness auto
termination
  apply (relation "measure (\<lambda>(a, b). size a)")
  apply (auto dest!: set_zip_leftD dest: size_js_elems intro: size_js_get)
  done

declare ts_deepEquals.simps [simp del]

subsection \<open>\<open>__serialize__\<close>\<close>

function ts_serialize :: "jsval \<Rightarrow> jsval" where
  "ts_serialize v =
    (if v = JSUndefined then JSNull
     else if v = JSNull then JSNull
     else if typeof v = ''number'' \<and> js_isNaN v then JSStr ''NaN''
     else if typeof v = ''number'' \<and> \<not> js_isFinite v then
       JSStr (if dless (Fin 0) (case v of JSNum d \<Rightarrow> d | _ \<Rightarrow> NaN) then ''Infinity''
              else ''-Infinity'')
     else if isArray v then JSArr (map ts_serialize (js_elems v))
     else if typeof v = ''object'' then
       JSObj (dict_of (map (\<lambda>k. (k, ts_serialize (js_get v k))) (js_keys v)))
     else v)"
  by pat_completeness auto
termination
  apply (relation "measure size")
  apply (auto dest: size_js_elems intro: size_js_get)
  done

declare ts_serialize.simps [simp del]

subsection \<open>\<open>__parseExpected__\<close>\<close>




subsection \<open>The batch loop\<close>








section \<open>The Java runner (the template of \<open>JavaGenerator\<close>)\<close>

text \<open>
  The objects \<open>deepEquals\<close> tells apart: \<open>null\<close>, a Boolean, an Integer (by its value), a
  Double, a String, a List, an array, and a Map whose keys are \<open>null\<close>, Booleans,
  Integers or Strings. Two objects reached from different arguments are never the same
  object.
\<close>

datatype jkey = KNull | KBool bool | KInt int | KStr string

datatype jval =
    JvNull
  | JvBoolean bool
  | JvInteger int
  | JvDouble double
  | JvString string
  | JvList "jval list"
  | JvArray "jval list"
  | JvMap "(jkey \<times> jval) list"

fun isNumber :: "jval \<Rightarrow> bool" where
  "isNumber (JvInteger _) = True"
| "isNumber (JvDouble _) = True"
| "isNumber _ = False"

fun doubleValue :: "jval \<Rightarrow> double" where
  "doubleValue (JvInteger n) = Fin (of_int n)"
| "doubleValue (JvDouble d) = d"
| "doubleValue _ = NaN"

fun isList :: "jval \<Rightarrow> bool" where
  "isList (JvList _) = True"
| "isList _ = False"

fun isJArray :: "jval \<Rightarrow> bool" where
  "isJArray (JvArray _) = True"
| "isJArray _ = False"

fun isMap :: "jval \<Rightarrow> bool" where
  "isMap (JvMap _) = True"
| "isMap _ = False"

fun jv_elems :: "jval \<Rightarrow> jval list" where
  "jv_elems (JvList xs) = xs"
| "jv_elems (JvArray xs) = xs"
| "jv_elems _ = []"

fun jv_entries :: "jval \<Rightarrow> (jkey \<times> jval) list" where
  "jv_entries (JvMap es) = es"
| "jv_entries _ = []"

text \<open>\<open>String.valueOf(key)\<close>, \<open>m.containsKey(k)\<close> and \<open>m.get(k)\<close> (\<open>null\<close> for no entry).\<close>

fun valueOf :: "jkey \<Rightarrow> string" where
  "valueOf KNull = ''null''"
| "valueOf (KBool b) = (if b then ''true'' else ''false'')"
| "valueOf (KInt n) = show_int n"
| "valueOf (KStr s) = s"

definition containsKey :: "(jkey \<times> jval) list \<Rightarrow> jkey \<Rightarrow> bool" where
  "containsKey m k = (k \<in> fst ` set m)"

definition map_get :: "(jkey \<times> jval) list \<Rightarrow> jkey \<Rightarrow> jval" where
  "map_get m k = (case map_of m k of Some v \<Rightarrow> v | None \<Rightarrow> JvNull)"

lemma size_jv_elems: "x \<in> set (jv_elems a) \<Longrightarrow> size x < size a"
  by (cases a) (auto simp: less_Suc_eq_le dest: size_list_estimation')

lemma size_jv_entries: "(k, v) \<in> set (jv_entries a) \<Longrightarrow> size v < size a"
  by (cases a)
    (auto simp: less_Suc_eq_le
      dest!: size_list_estimation' [where y = "size v" and f = "size_prod (\<lambda>_. 0) size"])

lemma size_jv_map: "(k, v) \<in> set m \<Longrightarrow> size v < size (JvMap m)"
  using size_jv_entries [of k v "JvMap m"] by simp

lemma size_jv_list: "x \<in> set xs \<Longrightarrow> size x < size (JvList xs)"
  using size_jv_elems [of x "JvList xs"] by simp

text \<open>
  \<open>a.equals(b)\<close> for a receiver that is not \<open>null\<close>: by value within one class, a List
  element by element, a Map entry by entry, an array by identity.
\<close>

function java_equals :: "jval \<Rightarrow> jval \<Rightarrow> bool" where
  "java_equals a b =
    (case (a, b) of
       (JvBoolean x, JvBoolean y) \<Rightarrow> x = y
     | (JvInteger x, JvInteger y) \<Rightarrow> x = y
     | (JvDouble x, JvDouble y) \<Rightarrow> x = y
     | (JvString x, JvString y) \<Rightarrow> x = y
     | (JvList xs, JvList ys) \<Rightarrow>
         length xs = length ys \<and>
         list_all (\<lambda>(x, y). if x = JvNull then y = JvNull else java_equals x y) (zip xs ys)
     | (JvMap m, JvMap n) \<Rightarrow>
         length m = length n \<and>
         list_all (\<lambda>(k, v). if v = JvNull then map_get n k = JvNull \<and> containsKey n k
                             else java_equals v (map_get n k)) m
     | _ \<Rightarrow> False)"
  by pat_completeness auto
termination
  apply (relation "measure (\<lambda>(a, b). size a)")
  apply (auto simp del: jval.size dest!: set_zip_leftD intro: size_jv_list size_jv_map)
  done

declare java_equals.simps [simp del]

subsection \<open>\<open>deepEquals\<close>\<close>

function java_deepEquals :: "jval \<Rightarrow> jval \<Rightarrow> bool" where
  "java_deepEquals a b =
    (if a = JvNull \<and> b = JvNull then True
     else if a = JvNull \<or> b = JvNull then False
     else if isNumber a \<and> isNumber b then
       (if isnan (doubleValue a) \<and> isnan (doubleValue b) then True
        else deq (doubleValue a) (doubleValue b))
     else if isList a \<and> isList b then
       (if length (jv_elems a) \<noteq> length (jv_elems b) then False
        else list_all (\<lambda>(x, y). java_deepEquals x y) (zip (jv_elems a) (jv_elems b)))
     else if isJArray a \<and> (isList b \<or> isJArray b) then
       (if length (jv_elems a) \<noteq> length (jv_elems b) then False
        else list_all (\<lambda>(x, y). java_deepEquals x y) (zip (jv_elems a) (jv_elems b)))
     else if isMap a \<and> isMap b then
       (if length (jv_entries a) \<noteq> length (jv_entries b) then False
        else list_all
          (\<lambda>(key, va).
             let keyStr = KStr (valueOf key);
                 vb = (if containsKey (jv_entries b) key then map_get (jv_entries b) key
                       else map_get (jv_entries b) keyStr)
             in if vb = JvNull \<and> \<not> containsKey (jv_entries b) key
                   \<and> \<not> containsKey (jv_entries b) keyStr then False
                else java_deepEquals va vb)
          (jv_entries a))
     else java_equals a b)"
  by pat_completeness auto
termination
  apply (relation "measure (\<lambda>(a, b). size a)")
  apply (auto dest!: set_zip_leftD dest: size_jv_elems size_jv_entries)
  done

declare java_deepEquals.simps [simp del]

section \<open>The C\<^verbatim>\<open>#\<close> runner (the template of \<open>CSharpGenerator\<close>)\<close>

text \<open>
  \<open>DeepEquals\<close> on \<open>null\<close>, a bool, an int, a double and a \<open>List<object>\<close>. On these
  values the branches for tuples, dictionaries and strings are not taken; values of
  those classes are outside this model. \<open>Equals\<close> on a list is reference equality, and
  two lists reached from different arguments are never the same object.
\<close>

datatype csval = CsNull | CsBool bool | CsInt int | CsDouble double | CsList "csval list"

fun IsNumeric :: "csval \<Rightarrow> bool" where
  "IsNumeric (CsInt _) = True"
| "IsNumeric (CsDouble _) = True"
| "IsNumeric _ = False"

fun ToDouble :: "csval \<Rightarrow> double" where
  "ToDouble (CsInt n) = Fin (of_int n)"
| "ToDouble (CsDouble d) = d"
| "ToDouble _ = NaN"

fun isEnumerable :: "csval \<Rightarrow> bool" where
  "isEnumerable (CsList _) = True"
| "isEnumerable _ = False"

fun cs_elems :: "csval \<Rightarrow> csval list" where
  "cs_elems (CsList xs) = xs"
| "cs_elems _ = []"

fun cs_Equals :: "csval \<Rightarrow> csval \<Rightarrow> bool" where
  "cs_Equals (CsBool x) (CsBool y) = (x = y)"
| "cs_Equals (CsInt x) (CsInt y) = (x = y)"
| "cs_Equals (CsDouble x) (CsDouble y) = (x = y)"
| "cs_Equals _ _ = False"

text \<open>The literal \<open>0.0000001\<close>: the double nearest to one ten-millionth.\<close>

definition tolerance :: double where
  "tolerance = fin_round (1 / 10 ^ 7)"

lemma size_cs_elems: "x \<in> set (cs_elems a) \<Longrightarrow> size x < size a"
  by (cases a) (auto simp: less_Suc_eq_le dest: size_list_estimation')

function cs_DeepEquals :: "csval \<Rightarrow> csval \<Rightarrow> bool" where
  "cs_DeepEquals a b =
    (if a = CsNull \<and> b = CsNull then True
     else if a = CsNull \<or> b = CsNull then False
     else if IsNumeric a \<and> IsNumeric b then
       (if isnan (ToDouble a) \<and> isnan (ToDouble b) then True
        else dless (dabs (dsub (ToDouble a) (ToDouble b))) tolerance)
     else if isEnumerable a \<and> isEnumerable b then
       (if length (cs_elems a) \<noteq> length (cs_elems b) then False
        else list_all (\<lambda>(x, y). cs_DeepEquals x y) (zip (cs_elems a) (cs_elems b)))
     else cs_Equals a b)"
  by pat_completeness auto
termination
  apply (relation "measure (\<lambda>(a, b). size a)")
  apply (auto dest!: set_zip_leftD dest: size_cs_elems)
  done

declare cs_DeepEquals.simps [simp del]

section \<open>The Mapping kind of the specification\<close>



section \<open>Properties of \<open>convertCppToJson\<close>\<close>

lemma escaped_Nil: "escaped s 0 = False"
  by (simp add: escaped_def)

lemma escaped_prefix: "i \<le> length p \<Longrightarrow> escaped (p @ q) i = escaped p i"
  by (simp add: escaped_def)

lemma escaped_snoc:
  "escaped (p @ c # q) (Suc (length p)) = (c = CHR 0x5C \<and> \<not> escaped (p @ c # q) (length p))"
proof -
  have "take (Suc (length p)) (p @ c # q) = p @ [c]" by simp
  then show ?thesis by (simp add: escaped_def)
qed

lemma delimits_prefix: "j < length p \<Longrightarrow> delimits (p @ q) j = delimits p j"
  by (simp add: delimits_def escaped_prefix nth_append)

lemma inside_Suc:
  "inside s (Suc i) = (inside s i \<noteq> delimits s i)"
  by (simp add: inside_def)

lemma cpp_loop_run:
  "cpp_loop result (inside (p @ cs) (length p)) (escaped (p @ cs) (length p)) cs =
     result @ map (\<lambda>i. rewritten_at (p @ cs) (length p + i)) [0..<length cs]"
proof (induction cs arbitrary: p result)
  case Nil
  show ?case by simp
next
  case (Cons c cs)
  let ?s = "p @ c # cs"
  have at: "?s ! length p = c" by simp
  have esc: "escaped ?s (Suc (length p)) = (c = CHR 0x5C \<and> \<not> escaped ?s (length p))"
    by (rule escaped_snoc)
  have ins: "inside ?s (Suc (length p)) = (inside ?s (length p) \<noteq> delimits ?s (length p))"
    by (rule inside_Suc)
  have del: "delimits ?s (length p) = (c = CHR 0x22 \<and> \<not> escaped ?s (length p))"
    by (simp add: delimits_def)
  have IH: "cpp_loop r (inside ?s (Suc (length p))) (escaped ?s (Suc (length p))) cs =
      r @ map (\<lambda>i. rewritten_at ?s (Suc (length p + i))) [0..<length cs]" for r
    using Cons.IH [where p = "p @ [c]" and result = r] by simp
  have step: "cpp_loop result (inside ?s (length p)) (escaped ?s (length p)) (c # cs) =
      cpp_loop (result @ [rewritten_at ?s (length p)])
        (inside ?s (Suc (length p))) (escaped ?s (Suc (length p))) cs"
    using esc ins del at by (simp add: rewritten_at_def)
  have range: "map (\<lambda>i. rewritten_at ?s (length p + i)) [0..<length (c # cs)] =
      rewritten_at ?s (length p) # map (\<lambda>i. rewritten_at ?s (Suc (length p + i))) [0..<length cs]"
    using map_upt_Suc [of "\<lambda>i. rewritten_at ?s (length p + i)" "length cs"] by simp
  show ?case
    unfolding range step IH by simp
qed

lemma cpp_rewrite_map: "cpp_rewrite s = map (rewritten_at s) [0..<length s]"
  using cpp_loop_run [of "[]" "[]" s]
  by (simp add: cpp_rewrite_def inside_def escaped_def)

text \<open>
  C9. When the trimmed expected value starts with an opening and ends with a closing
  brace, the rewritten text has the length of the trimmed text; at every position it
  holds \<open>[\<close> for \<open>{\<close> and \<open>]\<close> for \<open>}\<close> when the position is neither inside a string
  literal nor escaped, and the character of the trimmed text otherwise (so every
  character inside a literal is copied); a rewritten text that \<open>JSON.parse\<close> rejects
  gives back the argument itself, a text it accepts gives the parsed value.
\<close>

theorem convertCppToJson_rewrite:
  assumes "startsWith (trim v) ''{''" and "endsWith (trim v) ''}''"
  shows "length (cpp_rewrite (trim v)) = length (trim v)
    \<and> (\<forall>i < length (trim v). cpp_rewrite (trim v) ! i = rewritten_at (trim v) i)
    \<and> (\<forall>i < length (trim v). inside (trim v) i \<longrightarrow> cpp_rewrite (trim v) ! i = trim v ! i)
    \<and> (\<forall>i < length (trim v). cpp_rewrite (trim v) ! i \<noteq> trim v ! i \<longrightarrow>
          \<not> inside (trim v) i \<and>
          (trim v ! i = CHR ''{'' \<and> cpp_rewrite (trim v) ! i = CHR ''[''
           \<or> trim v ! i = CHR ''}'' \<and> cpp_rewrite (trim v) ! i = CHR '']''))
    \<and> (json_parse (cpp_rewrite (trim v)) = None \<longrightarrow>
          convertCppToJson json_parse (JSStr v) = JSStr v)
    \<and> (\<forall>parsed. json_parse (cpp_rewrite (trim v)) = Some parsed \<longrightarrow>
          convertCppToJson json_parse (JSStr v) = parsed)"
proof -
  have nth: "\<And>i. i < length (trim v) \<Longrightarrow> cpp_rewrite (trim v) ! i = rewritten_at (trim v) i"
    by (simp add: cpp_rewrite_map)
  have len: "length (cpp_rewrite (trim v)) = length (trim v)"
    by (simp add: cpp_rewrite_map)
  have ins: "\<And>i. i < length (trim v) \<Longrightarrow> inside (trim v) i \<Longrightarrow>
      cpp_rewrite (trim v) ! i = trim v ! i"
    by (simp add: nth rewritten_at_def)
  have chg: "\<And>i. i < length (trim v) \<Longrightarrow> cpp_rewrite (trim v) ! i \<noteq> trim v ! i \<Longrightarrow>
      \<not> inside (trim v) i \<and>
      (trim v ! i = CHR ''{'' \<and> cpp_rewrite (trim v) ! i = CHR ''[''
       \<or> trim v ! i = CHR ''}'' \<and> cpp_rewrite (trim v) ! i = CHR '']'')"
    by (simp add: nth rewritten_at_def split: if_splits)
  have none: "json_parse (cpp_rewrite (trim v)) = None \<Longrightarrow>
      convertCppToJson json_parse (JSStr v) = JSStr v"
    using assms by (simp add: convertCppToJson_def)
  have some: "\<And>parsed. json_parse (cpp_rewrite (trim v)) = Some parsed \<Longrightarrow>
      convertCppToJson json_parse (JSStr v) = parsed"
    using assms by (simp add: convertCppToJson_def)
  from len nth ins chg none some show ?thesis by blast
qed

text \<open>
  The theorem at \<open> {"{",{1}}  \<close>, whose quoted brace stays and whose other braces become
  brackets.
\<close>

theorem convertCppToJson_rewrite_witness:
  "startsWith (trim '' {\"{\",{1}}  '') ''{''
   \<and> endsWith (trim '' {\"{\",{1}}  '') ''}''
   \<and> inside (trim '' {\"{\",{1}}  '') 2
   \<and> cpp_rewrite (trim '' {\"{\",{1}}  '') ! 2 = CHR ''{''
   \<and> cpp_rewrite (trim '' {\"{\",{1}}  '') ! 5 = CHR ''[''
   \<and> convertCppToJson (\<lambda>_. None) (JSStr '' {\"{\",{1}}  '') = JSStr '' {\"{\",{1}}  ''"
proof -
  have h1: "startsWith (trim '' {\"{\",{1}}  '') ''{''"
    by (simp add: startsWith_def trim_def js_ws_def)
  have h2: "endsWith (trim '' {\"{\",{1}}  '') ''}''"
    by (simp add: endsWith_def trim_def js_ws_def)
  have h3: "inside (trim '' {\"{\",{1}}  '') 2"
    by (simp add: inside_def delimits_def escaped_def trim_def js_ws_def upt_rec)
  have h4: "trim '' {\"{\",{1}}  '' = ''{\"{\",{1}}''"
    by (simp add: trim_def js_ws_def)
  have h5: "rewritten_at ''{\"{\",{1}}'' 5 = CHR ''[''"
    by (simp add: rewritten_at_def inside_def delimits_def escaped_def upt_rec)
  have len: "length (trim '' {\"{\",{1}}  '') = 9"
    by (simp add: h4)
  note T = convertCppToJson_rewrite [OF h1 h2, of "\<lambda>_. None"]
  from T have ins: "\<forall>i < length (trim '' {\"{\",{1}}  '').
      inside (trim '' {\"{\",{1}}  '') i \<longrightarrow>
      cpp_rewrite (trim '' {\"{\",{1}}  '') ! i = trim '' {\"{\",{1}}  '' ! i"
    by blast
  from T have nth: "\<forall>i < length (trim '' {\"{\",{1}}  '').
      cpp_rewrite (trim '' {\"{\",{1}}  '') ! i = rewritten_at (trim '' {\"{\",{1}}  '') i"
    by blast
  from T have none:
    "convertCppToJson (\<lambda>_. None) (JSStr '' {\"{\",{1}}  '') = JSStr '' {\"{\",{1}}  ''"
    by blast
  from ins h3 len have "cpp_rewrite (trim '' {\"{\",{1}}  '') ! 2 = trim '' {\"{\",{1}}  '' ! 2"
    by simp
  then have r2: "cpp_rewrite (trim '' {\"{\",{1}}  '') ! 2 = CHR ''{''"
    by (simp add: h4)
  from nth len have "cpp_rewrite (trim '' {\"{\",{1}}  '') ! 5 = rewritten_at (trim '' {\"{\",{1}}  '') 5"
    by simp
  then have r5: "cpp_rewrite (trim '' {\"{\",{1}}  '') ! 5 = CHR ''[''"
    by (simp only: h4 h5)
  from h1 h2 h3 r2 r5 none show ?thesis by blast
qed

section \<open>Properties of the Python runner\<close>

lemmas py_class = isinstance_def issubclass_def

lemma deep_equals_other_class:
  "a \<noteq> PNone \<Longrightarrow> b \<noteq> PNone \<Longrightarrow> type_of a \<noteq> type_of b \<Longrightarrow> deep_equals a b = False"
  by (subst deep_equals.simps) (auto simp: py_class)

lemma deep_equals_elementwise:
  assumes "type_of a = type_of b" and "type_of a = Clist \<or> type_of a = Ctuple"
  shows "deep_equals a b =
    (length (elems a) = length (elems b)
      \<and> (\<forall>i < length (elems a). deep_equals (elems a ! i) (elems b ! i)))"
proof -
  from assms have "a \<noteq> PNone" "b \<noteq> PNone" by auto
  with assms show ?thesis
    by (subst deep_equals.simps) (auto simp: py_class list_all_length)
qed

lemma py_eq_float: "py_eq (PFloat x) (PFloat y) = deq x y"
  by (simp add: py_eq.simps)


lemma deep_equals_floats:
  "deep_equals (PFloat x) (PFloat y) = (x = NaN \<and> y = NaN \<or> deq x y)"
  by (subst deep_equals.simps) (auto simp: py_class isnan_def py_eq_float)



lemma serialize_float:
  "serialize L (PFloat d) =
     (if d = NaN then marker ''float'' (JStr ''NaN'')
      else if d = PInf then marker ''float'' (JStr ''Infinity'')
      else if d = NInf then marker ''float'' (JStr ''-Infinity'')
      else marker ''float'' (JFloat d))"
  by (subst serialize.simps) (auto simp: py_class isnan_def isinf_def)






section \<open>Properties of the TypeScript runner\<close>




lemma ts_numbers: "ts_deepEquals (JSNum x) (JSNum y) = (x = NaN \<and> y = NaN \<or> deq x y)"
  by (subst ts_deepEquals.simps) (auto simp: isnan_def)

lemma ts_array_equality:
  "ts_deepEquals (JSArr xs) (JSArr ys) =
     (length xs = length ys \<and> (\<forall>i < length xs. ts_deepEquals (xs ! i) (ys ! i)))"
  by (subst ts_deepEquals.simps) (auto simp: list_all_length)

section \<open>Properties of the Java runner\<close>

lemma java_deepEquals_numbers:
  "isNumber a \<Longrightarrow> isNumber b \<Longrightarrow>
   java_deepEquals a b =
     (doubleValue a = NaN \<and> doubleValue b = NaN \<or> deq (doubleValue a) (doubleValue b))"
  by (subst java_deepEquals.simps) (auto simp: isnan_def)



section \<open>The claims about the runners\<close>

text \<open>
  C1, as the runners have it. In the Python runner \<open>deep_equals\<close> of an int and a float is
  false in both orders, whatever the two values are. The Java runner's \<open>deepEquals\<close>
  compares an Integer and a Double by their double values, and the TypeScript runner has
  a single kind of number, compared by value (two NaN being equal).
\<close>

theorem int_float_never_equal:
  "deep_equals (PInt n) (PFloat d) = False
   \<and> deep_equals (PFloat d) (PInt n) = False
   \<and> java_deepEquals (JvInteger n) (JvDouble d) = deq (Fin (of_int n)) d
   \<and> java_deepEquals (JvDouble d) (JvInteger n) = deq d (Fin (of_int n))
   \<and> ts_deepEquals (JSNum x) (JSNum y) = (x = NaN \<and> y = NaN \<or> deq x y)"
  by (simp add: deep_equals_other_class java_deepEquals_numbers ts_numbers deq_def)

text \<open>
  The theorem at the int 1 and the float 1.0: unequal for Python, equal for Java.
\<close>

theorem int_float_never_equal_witness:
  "deep_equals (PInt 1) (PFloat (Fin 1)) = False
   \<and> deep_equals (PFloat (Fin 1)) (PInt 1) = False
   \<and> java_deepEquals (JvInteger 1) (JvDouble (Fin 1)) = True
   \<and> java_deepEquals (JvDouble (Fin 1)) (JvInteger 1) = True"
  using int_float_never_equal [of 1 "Fin 1"] by (simp add: deq_def)

text \<open>
  The statement of C1 fails on the Java runner: \<open>deepEquals\<close> of the Integer 1 and the
  Double 1.0 is true.
\<close>

theorem java_int_equals_double:
  "java_deepEquals (JvInteger 1) (JvDouble (Fin 1))"
  by code_simp

lemma close30: "dless (dabs (dsub (Fin 1) (Fin (1 + 1 / 2 ^ 30)))) tolerance"
  by code_simp

lemma csharp_numbers:
  "IsNumeric a \<Longrightarrow> IsNumeric b \<Longrightarrow>
   cs_DeepEquals a b =
     (ToDouble a = NaN \<and> ToDouble b = NaN \<or> dless (dabs (dsub (ToDouble a) (ToDouble b))) tolerance)"
  by (subst cs_DeepEquals.simps) (auto simp: isnan_def)

text \<open>
  C2, as the runners have it. In the Python runner two floats are equal when both are
  NaN, unequal when exactly one is, and otherwise equal exactly when they are the same
  value, with no tolerance. The C\<^verbatim>\<open>#\<close> runner's \<open>DeepEquals\<close> takes two doubles as equal
  when both are NaN or when the absolute value of their difference is below 0.0000001.
\<close>

theorem float_equality:
  "deep_equals (PFloat a) (PFloat b) =
     (if a = NaN \<and> b = NaN then True else if a = NaN \<or> b = NaN then False else a = b)
   \<and> cs_DeepEquals (CsDouble a) (CsDouble b) =
     (a = NaN \<and> b = NaN \<or> dless (dabs (dsub a b)) tolerance)"
  by (auto simp: deep_equals_floats csharp_numbers deq_def)

text \<open>
  The theorem at NaN and NaN, at NaN and 1.0, and at 1.0 and \<open>1 + 2\<^sup>-\<^sup>3\<^sup>0\<close>, which Python
  tells apart and C\<^verbatim>\<open>#\<close> does not.
\<close>

theorem float_equality_witness:
  "deep_equals (PFloat NaN) (PFloat NaN) = True
   \<and> deep_equals (PFloat NaN) (PFloat (Fin 1)) = False
   \<and> deep_equals (PFloat (Fin 1)) (PFloat (Fin (1 + 1 / 2 ^ 30))) = False
   \<and> cs_DeepEquals (CsDouble (Fin 1)) (CsDouble (Fin (1 + 1 / 2 ^ 30))) = True"
  using float_equality [of NaN NaN] float_equality [of NaN "Fin 1"]
    float_equality [of "Fin 1" "Fin (1 + 1 / 2 ^ 30)"] close30
  by simp

text \<open>
  The statement of C2 fails on the C\<^verbatim>\<open>#\<close> runner: the doubles 1.0 and \<open>1 + 2\<^sup>-\<^sup>3\<^sup>0\<close> differ
  and \<open>DeepEquals\<close> takes them as equal.
\<close>

theorem csharp_tolerance_counterexample:
  "cs_DeepEquals (CsDouble (Fin 1)) (CsDouble (Fin (1 + 1 / 2 ^ 30)))
   \<and> Fin 1 \<noteq> Fin (1 + 1 / 2 ^ 30)"
  using close30 by (simp add: csharp_numbers)








lemma convert_bad_tuple:
  "convert_expected L (JObj [(''__type__'', JStr ''tuple''), (''value'', JInt 5)]) = Inl TypeError"
  by (simp add: convert_expected.simps has_key_def get_key_def over_iter_def map_sum_r_def)

lemma strip_bad_tuple:
  "strip ''{\"__type__\": \"tuple\", \"value\": 5}'' = ''{\"__type__\": \"tuple\", \"value\": 5}''"
  by (simp add: strip_def py_space_def)

text \<open>
  C5 at a failing input. On the text \<open>{"__type__": "tuple", "value": 5}\<close>, which
  \<open>json.loads\<close> decodes to a dict with the two marker keys, \<open>parse_expected_value\<close> does
  not return: \<open>convert_expected\<close> iterates over the number 5, and the \<open>TypeError\<close> passes
  the \<open>except\<close> clause, which catches \<open>JSONDecodeError\<close> and \<open>ValueError\<close> only.
\<close>

theorem parse_raises_type_error:
  assumes "json_loads L ''{\"__type__\": \"tuple\", \"value\": 5}''
      = Some (JObj [(''__type__'', JStr ''tuple''), (''value'', JInt 5)])"
  shows "parse_expected_value L (JStr ''{\"__type__\": \"tuple\", \"value\": 5}'') = Inl TypeError"
  using assms
  by (simp add: parse_expected_value_def strip_bad_tuple rule_json_def convert_bad_tuple)

text \<open>
  The theorem with a library whose \<open>json.loads\<close> decodes the text as Python's does.
\<close>

theorem parse_raises_type_error_witness:
  "parse_expected_value
     \<lparr>str_of = (\<lambda>_. []), json_str = (\<lambda>_. []), int_of_str = (\<lambda>_. None),
      float_of_str = (\<lambda>_. None),
      json_loads = (\<lambda>_. Some (JObj [(''__type__'', JStr ''tuple''), (''value'', JInt 5)])),
      literal_eval = (\<lambda>_. Inl SyntaxError), err_text = (\<lambda>_. [])\<rparr>
     (JStr ''{\"__type__\": \"tuple\", \"value\": 5}'') = Inl TypeError"
  by (rule parse_raises_type_error) simp

lemma serialize_deque_nan:
  "serialize L (PDeque [PFloat NaN]) = marker ''deque'' (JArr [marker ''float'' (JStr ''NaN'')])"
  by (simp add: serialize.simps py_class isnan_def)

lemma serialize_set_nan:
  "serialize L (PSet [PFloat NaN]) = marker ''set'' (JArr [marker ''float'' (JStr ''NaN'')])"
  by (simp add: serialize.simps py_class isnan_def)

lemma convert_deque_nan:
  "convert_expected L (marker ''deque'' (JArr [marker ''float'' (JStr ''NaN'')])) = Inr (PDeque [PFloat NaN])"
  by (simp add: convert_expected.simps has_key_def get_key_def over_iter_def map_sum_r_def marker_def)

lemma convert_set_nan:
  "convert_expected L (marker ''set'' (JArr [marker ''float'' (JStr ''NaN'')])) = Inr (PSet [PFloat NaN])"
  by (simp add: convert_expected.simps has_key_def get_key_def over_iter_def map_sum_r_def
      bind_sum_def make_set_def set_insert_def marker_def)

text \<open>
  C6 at failing inputs. A deque or a set that holds NaN is serialized and converted
  back to a deque or set that holds NaN, and \<open>deep_equals\<close> takes the two as unequal: its
  last branches compare with \<open>==\<close>, under which NaN differs from NaN. A list that holds
  NaN is compared element by element and is equal.
\<close>

theorem roundtrip_nan_in_container:
  "convert_expected L (serialize L (PDeque [PFloat NaN])) = Inr (PDeque [PFloat NaN])
   \<and> deep_equals (PDeque [PFloat NaN]) (PDeque [PFloat NaN]) = False
   \<and> convert_expected L (serialize L (PSet [PFloat NaN])) = Inr (PSet [PFloat NaN])
   \<and> deep_equals (PSet [PFloat NaN]) (PSet [PFloat NaN]) = False
   \<and> deep_equals (PList [PFloat NaN]) (PList [PFloat NaN]) = True"
proof (intro conjI)
  show "deep_equals (PDeque [PFloat NaN]) (PDeque [PFloat NaN]) = False" by code_simp
  show "deep_equals (PSet [PFloat NaN]) (PSet [PFloat NaN]) = False" by code_simp
  show "deep_equals (PList [PFloat NaN]) (PList [PFloat NaN]) = True" by code_simp
qed (simp_all add: serialize_deque_nan serialize_set_nan convert_deque_nan convert_set_nan)

text \<open>
  The theorem read for every library.
\<close>

theorem roundtrip_nan_in_container_witness:
  "\<forall>L. convert_expected L (serialize L (PDeque [PFloat NaN])) = Inr (PDeque [PFloat NaN])
     \<and> \<not> deep_equals (PDeque [PFloat NaN]) (PDeque [PFloat NaN])"
  using roundtrip_nan_in_container by simp

text \<open>
  C7. In the Python runner a list and a tuple are never equal, in either order; two
  lists, and two tuples, are equal exactly when they have the same length and equal
  elements position by position. Two arrays of the TypeScript runner, which has no
  tuples, are equal on the same condition.
\<close>

theorem sequence_tuple_equality:
  "deep_equals (PList xs) (PTuple ys) = False
   \<and> deep_equals (PTuple xs) (PList ys) = False
   \<and> deep_equals (PList xs) (PList ys) =
       (length xs = length ys \<and> (\<forall>i < length xs. deep_equals (xs ! i) (ys ! i)))
   \<and> deep_equals (PTuple xs) (PTuple ys) =
       (length xs = length ys \<and> (\<forall>i < length xs. deep_equals (xs ! i) (ys ! i)))
   \<and> ts_deepEquals (JSArr us) (JSArr vs) =
       (length us = length vs \<and> (\<forall>i < length us. ts_deepEquals (us ! i) (vs ! i)))"
  using deep_equals_elementwise [of "PList xs" "PList ys"]
    deep_equals_elementwise [of "PTuple xs" "PTuple ys"]
  by (simp add: deep_equals_other_class ts_array_equality)

text \<open>
  The theorem at \<open>[1, 2, 3]\<close> and \<open>(1, 2, 3)\<close>, and at two lists of different lengths.
\<close>

theorem sequence_tuple_equality_witness:
  "deep_equals (PList [PInt 1, PInt 2, PInt 3]) (PTuple [PInt 1, PInt 2, PInt 3]) = False
   \<and> deep_equals (PTuple [PInt 1, PInt 2, PInt 3]) (PList [PInt 1, PInt 2, PInt 3]) = False
   \<and> deep_equals (PList [PInt 1, PInt 2, PInt 3]) (PList [PInt 1, PInt 2, PInt 3])
   \<and> deep_equals (PTuple [PInt 1, PInt 2, PInt 3]) (PTuple [PInt 1, PInt 2, PInt 3])
   \<and> \<not> deep_equals (PList [PInt 1, PInt 2]) (PList [PInt 1, PInt 2, PInt 3])
   \<and> ts_deepEquals (JSArr [JSNum (Fin 1), JSNum (Fin 2)]) (JSArr [JSNum (Fin 1), JSNum (Fin 2)])"
proof -
  have e: "deep_equals (PInt n) (PInt n)" for n
    by (subst deep_equals.simps) (simp add: py_class py_eq.simps deq_def)
  have t: "ts_deepEquals (JSNum (Fin q)) (JSNum (Fin q))" for q
    by (simp add: ts_deepEquals.simps deq_def)
  have py: "\<forall>i < length [PInt 1, PInt 2, PInt 3].
      deep_equals ([PInt 1, PInt 2, PInt 3] ! i) ([PInt 1, PInt 2, PInt 3] ! i)"
    using e by (auto simp: nth_Cons')
  have ts: "\<forall>i < length [JSNum (Fin 1), JSNum (Fin 2)].
      ts_deepEquals ([JSNum (Fin 1), JSNum (Fin 2)] ! i) ([JSNum (Fin 1), JSNum (Fin 2)] ! i)"
    using t by (auto simp: nth_Cons')
  note T1 = sequence_tuple_equality [of "[PInt 1, PInt 2, PInt 3]" "[PInt 1, PInt 2, PInt 3]"
      "[JSNum (Fin 1), JSNum (Fin 2)]" "[JSNum (Fin 1), JSNum (Fin 2)]"]
  note T2 = sequence_tuple_equality [of "[PInt 1, PInt 2]" "[PInt 1, PInt 2, PInt 3]" "[]" "[]"]
  from T1 py have a: "deep_equals (PList [PInt 1, PInt 2, PInt 3]) (PList [PInt 1, PInt 2, PInt 3])"
    by blast
  from T1 py have b: "deep_equals (PTuple [PInt 1, PInt 2, PInt 3]) (PTuple [PInt 1, PInt 2, PInt 3])"
    by blast
  from T1 ts have c: "ts_deepEquals (JSArr [JSNum (Fin 1), JSNum (Fin 2)]) (JSArr [JSNum (Fin 1), JSNum (Fin 2)])"
    by blast
  from T2 have d: "\<not> deep_equals (PList [PInt 1, PInt 2]) (PList [PInt 1, PInt 2, PInt 3])"
    by simp
  from T1 have f: "deep_equals (PList [PInt 1, PInt 2, PInt 3]) (PTuple [PInt 1, PInt 2, PInt 3]) = False"
    "deep_equals (PTuple [PInt 1, PInt 2, PInt 3]) (PList [PInt 1, PInt 2, PInt 3]) = False"
    by blast+
  from a b c d f show ?thesis by blast
qed

lemma ts_serialize_nonfinite:
  "ts_serialize (JSNum NaN) = JSStr ''NaN''"
  "ts_serialize (JSNum PInf) = JSStr ''Infinity''"
  "ts_serialize (JSNum NInf) = JSStr ''-Infinity''"
  by (simp_all add: ts_serialize.simps isnan_def)

text \<open>
  C8, as the runners have it. The Python runner's \<open>serialize\<close> gives NaN and the two
  infinities as the object with \<open>__type__\<close> \<open>float\<close> and the sentinel string as its
  \<open>value\<close>. The TypeScript runner's \<open>__serialize__\<close> gives the bare sentinel string.
\<close>

theorem nonfinite_float_wrapper:
  "serialize L (PFloat NaN) = JObj [(''__type__'', JStr ''float''), (''value'', JStr ''NaN'')]
   \<and> serialize L (PFloat PInf) = JObj [(''__type__'', JStr ''float''), (''value'', JStr ''Infinity'')]
   \<and> serialize L (PFloat NInf) = JObj [(''__type__'', JStr ''float''), (''value'', JStr ''-Infinity'')]
   \<and> ts_serialize (JSNum NaN) = JSStr ''NaN''
   \<and> ts_serialize (JSNum PInf) = JSStr ''Infinity''
   \<and> ts_serialize (JSNum NInf) = JSStr ''-Infinity''"
  by (simp add: serialize_float marker_def ts_serialize_nonfinite)

text \<open>
  The theorem read for every library.
\<close>

theorem nonfinite_float_wrapper_witness:
  "\<forall>L. serialize L (PFloat NaN) = JObj [(''__type__'', JStr ''float''), (''value'', JStr ''NaN'')]
     \<and> serialize L (PFloat NInf) = JObj [(''__type__'', JStr ''float''), (''value'', JStr ''-Infinity'')]"
  using nonfinite_float_wrapper by simp

text \<open>
  The statement of C8 fails on the TypeScript runner: NaN is serialized as the bare
  string \<open>NaN\<close>, not as an object.
\<close>

theorem ts_bare_sentinel_counterexample:
  "ts_serialize (JSNum NaN) = JSStr ''NaN''
   \<and> ts_serialize (JSNum NaN) \<noteq> JSObj [(''__type__'', JSStr ''float''), (''value'', JSStr ''NaN'')]"
  by (simp add: ts_serialize_nonfinite)

text \<open>
  C10. In the Python runner a bool is an instance of \<open>int\<close>, and still a bool and an int
  are never equal under \<open>deep_equals\<close>, in either order, and \<open>serialize\<close> gives a bool as
  a plain JSON boolean where it gives an int as the object with \<open>__type__\<close> \<open>int\<close>.
\<close>

theorem bool_not_int:
  "isinstance (PBool b) Cint
   \<and> deep_equals (PBool b) (PInt n) = False
   \<and> deep_equals (PInt n) (PBool b) = False
   \<and> serialize L (PBool b) = JBool b
   \<and> serialize L (PInt n) = JObj [(''__type__'', JStr ''int''), (''value'', JInt n)]"
proof (intro conjI)
  show "isinstance (PBool b) Cint" by (simp add: py_class)
  show "serialize L (PBool b) = JBool b" by (subst serialize.simps) (simp add: py_class)
  show "serialize L (PInt n) = JObj [(''__type__'', JStr ''int''), (''value'', JInt n)]"
    by (subst serialize.simps) (simp add: py_class marker_def)
qed (simp_all add: deep_equals_other_class)

text \<open>
  The theorem at \<open>True\<close> and 1.
\<close>

theorem bool_not_int_witness:
  "\<forall>L. deep_equals (PBool True) (PInt 1) = False
     \<and> deep_equals (PInt 1) (PBool True) = False
     \<and> serialize L (PBool True) = JBool True
     \<and> serialize L (PInt 1) = JObj [(''__type__'', JStr ''int''), (''value'', JInt 1)]"
  using bool_not_int [of True 1] by simp

end
